theory Spec2Isabelle
  imports Main "HOL-Library.Log_Nat"
begin

section \<open>JavaScript values\<close>

subsection \<open>Numbers\<close>

text \<open>
  A JavaScript Number is an IEEE 754 binary64 value. The finite ones are carried by
  the rational they denote; the two zeros are one value here, since this program never
  observes the sign of a zero (it only adds, subtracts and compares numbers, and
  \<^verbatim>\<open>String(-0)\<close> is \<^verbatim>\<open>"0"\<close>). The type holds every rational, so what is proved for
  all of its values holds for the binary64 ones; a sum or a difference is rounded, and
  so is a binary64 value again.
\<close>

datatype jsnum = NaN | PosInf | NegInf | Fin rat

definition pow2 :: "int \<Rightarrow> rat" where
  "pow2 e = (if 0 \<le> e then 2 ^ nat e else 1 / 2 ^ nat (- e))"

text \<open>\<open>ilog2 q\<close> is the binary exponent of a positive rational: \<open>2^e \<le> q < 2^(e+1)\<close>.\<close>

definition ilog2 :: "rat \<Rightarrow> int" where
  "ilog2 q =
     (let (a, b) = quotient_of q;
          d = int (floorlog 2 (nat a)) - int (floorlog 2 (nat b))
      in if q < pow2 d then d - 1 else d)"

text \<open>Rounding to the nearest integer, a tie going to the even one.\<close>

definition rne :: "rat \<Rightarrow> int" where
  "rne q =
     (let f = \<lfloor>q\<rfloor>; r = q - of_int f
      in if r < 1 / 2 then f
         else if 1 / 2 < r then f + 1
         else if even f then f else f + 1)"

text \<open>
  Rounding a positive rational to binary64 (round to nearest, ties to even): 53
  significant bits, the exponent not below that of the subnormals, and overflow to
  infinity from \<open>2^1024\<close> on.
\<close>

definition round64_pos :: "rat \<Rightarrow> jsnum" where
  "round64_pos q =
     (let e = max (ilog2 q) (- 1022);
          ulp = pow2 (e - 52);
          r = of_int (rne (q / ulp)) * ulp
      in if pow2 1024 \<le> r then PosInf else Fin r)"

definition round64 :: "rat \<Rightarrow> jsnum" where
  "round64 q =
     (if q = 0 then Fin 0
      else if 0 < q then round64_pos q
      else (case round64_pos (- q) of Fin r \<Rightarrow> Fin (- r) | _ \<Rightarrow> NegInf))"

text \<open>The operators \<^verbatim>\<open>+\<close>, \<^verbatim>\<open>-\<close>, \<^verbatim>\<open><\<close>, \<^verbatim>\<open><=\<close> and \<^verbatim>\<open>++\<close> on Numbers.\<close>

fun js_add :: "jsnum \<Rightarrow> jsnum \<Rightarrow> jsnum" where
  "js_add NaN _ = NaN"
| "js_add _ NaN = NaN"
| "js_add PosInf NegInf = NaN"
| "js_add NegInf PosInf = NaN"
| "js_add PosInf _ = PosInf"
| "js_add NegInf _ = NegInf"
| "js_add (Fin a) PosInf = PosInf"
| "js_add (Fin a) NegInf = NegInf"
| "js_add (Fin a) (Fin b) = round64 (a + b)"

fun js_neg :: "jsnum \<Rightarrow> jsnum" where
  "js_neg NaN = NaN"
| "js_neg PosInf = NegInf"
| "js_neg NegInf = PosInf"
| "js_neg (Fin a) = Fin (- a)"

definition js_sub :: "jsnum \<Rightarrow> jsnum \<Rightarrow> jsnum" where
  "js_sub a b = js_add a (js_neg b)"

fun js_lt :: "jsnum \<Rightarrow> jsnum \<Rightarrow> bool" where
  "js_lt NaN _ = False"
| "js_lt _ NaN = False"
| "js_lt PosInf _ = False"
| "js_lt NegInf NegInf = False"
| "js_lt NegInf _ = True"
| "js_lt (Fin a) PosInf = True"
| "js_lt (Fin a) NegInf = False"
| "js_lt (Fin a) (Fin b) = (a < b)"

fun js_le :: "jsnum \<Rightarrow> jsnum \<Rightarrow> bool" where
  "js_le NaN _ = False"
| "js_le _ NaN = False"
| "js_le a b = (a = b \<or> js_lt a b)"

text \<open>\<^verbatim>\<open>a > b\<close> is evaluated as \<^verbatim>\<open>b < a\<close>.\<close>

definition js_gt :: "jsnum \<Rightarrow> jsnum \<Rightarrow> bool" where
  "js_gt a b = js_lt b a"

definition js_inc :: "jsnum \<Rightarrow> jsnum" where
  "js_inc a = js_add a (Fin 1)"

subsection \<open>Values\<close>

text \<open>
  What a parsed JSON body can hold in a field (\<open>JUndefined\<close> for a field that is
  absent). Objects and arrays are not looked into by this program.
\<close>

datatype jsval = JUndefined | JNull | JBoolean bool | JString string | JNumber jsnum | JObject

fun typeof :: "jsval \<Rightarrow> string" where
  "typeof JUndefined = ''undefined''"
| "typeof JNull = ''object''"
| "typeof (JBoolean _) = ''boolean''"
| "typeof (JString _) = ''string''"
| "typeof (JNumber _) = ''number''"
| "typeof JObject = ''object''"

text \<open>
  The Number that a value of type \<^verbatim>\<open>number\<close> is. The handlers compare and add an amount
  only behind \<^verbatim>\<open>typeof amount !== 'number' ||\<close>, so no other value reaches an operator.
\<close>

fun number_of :: "jsval \<Rightarrow> jsnum" where
  "number_of (JNumber a) = a"
| "number_of _ = NaN"

text \<open>\<^verbatim>\<open>s.split(sep)\<close> for a one-character separator, and \<^verbatim>\<open>xs[i]\<close> on an array.\<close>

fun split :: "char \<Rightarrow> string \<Rightarrow> string list" where
  "split sep [] = [] # []"
| "split sep (c # cs) =
     (if c = sep then [] # split sep cs
      else (case split sep cs of
              [] \<Rightarrow> [c] # []
            | w # ws \<Rightarrow> (c # w) # ws))"

definition index :: "'a list \<Rightarrow> nat \<Rightarrow> 'a option" where
  "index xs i = (if i < length xs then Some (xs ! i) else None)"

section \<open>Responses\<close>

text \<open>The object handed to \<^verbatim>\<open>res.status(..).json(..)\<close>.\<close>

datatype json =
    ErrorBody string
  | TokenBody string
  | AccountIdBody jsnum
  | TransactionIdBody string
  | BalanceBody jsnum

record response =
  status :: nat
  body :: json

text \<open>The failure kinds of the specification, as the responses the handlers send.\<close>

definition MissingCredential :: response where
  "MissingCredential = \<lparr>status = 403, body = ErrorBody ''No token provided''\<rparr>"

definition InvalidCredential :: response where
  "InvalidCredential = \<lparr>status = 403, body = ErrorBody ''Token is not valid''\<rparr>"

definition AccountNotFound :: response where
  "AccountNotFound = \<lparr>status = 404, body = ErrorBody ''Account not found''\<rparr>"

definition InvalidDepositAmount :: response where
  "InvalidDepositAmount = \<lparr>status = 400, body = ErrorBody ''Invalid deposit amount''\<rparr>"

definition InvalidWithdrawalAmount :: response where
  "InvalidWithdrawalAmount = \<lparr>status = 400, body = ErrorBody ''Invalid withdrawal amount''\<rparr>"

definition InsufficientFunds :: response where
  "InsufficientFunds = \<lparr>status = 400, body = ErrorBody ''Insufficient funds''\<rparr>"

section \<open>The account store\<close>

text \<open>
  \<^verbatim>\<open>accounts\<close> is a plain object used as a dictionary and \<^verbatim>\<open>nextAccountId\<close> a Number.
  A property key is the string of a Number; that string determines the Number, so the
  dictionary is keyed by the Number. Keys of this form never meet a property inherited
  from \<^verbatim>\<open>Object.prototype\<close>, and a stored account is an object, hence truthy: the test
  \<^verbatim>\<open>!accounts[accountId]\<close> holds exactly when the key is absent.
\<close>

record account =
  id' :: jsnum
  balance :: jsnum

record state =
  accounts :: "jsnum \<rightharpoonup> account"
  nextAccountId :: jsnum

definition init :: state where
  "init = \<lparr>accounts = Map.empty, nextAccountId = Fin 1\<rparr>"

text \<open>\<^verbatim>\<open>POST /accounts\<close>\<close>

definition createAccount :: "state \<Rightarrow> response \<times> state" where
  "createAccount s =
     (let account = \<lparr>id' = nextAccountId s, balance = Fin 0\<rparr>;
          s1 = s\<lparr>accounts := (accounts s)(nextAccountId s \<mapsto> account)\<rparr>;
          s2 = s1\<lparr>nextAccountId := js_inc (nextAccountId s1)\<rparr>
      in (\<lparr>status = 201, body = AccountIdBody (id' account)\<rparr>, s2))"

text \<open>
  \<^verbatim>\<open>POST /accounts/:id/deposit\<close>. \<open>accountId\<close> is the value of
  \<^verbatim>\<open>parseInt(req.params.id, 10)\<close>, \<open>amount\<close> the field of the body, and \<open>uuid\<close>
  the string that \<^verbatim>\<open>uuidv4()\<close> returns in this call.
\<close>

definition deposit :: "jsnum \<Rightarrow> jsval \<Rightarrow> string \<Rightarrow> state \<Rightarrow> response \<times> state" where
  "deposit accountId amount uuid s =
     (case accounts s accountId of
        None \<Rightarrow> (AccountNotFound, s)
      | Some acc \<Rightarrow>
          if typeof amount \<noteq> ''number'' \<or> js_le (number_of amount) (Fin 0)
          then (InvalidDepositAmount, s)
          else (\<lparr>status = 200, body = TransactionIdBody uuid\<rparr>,
                s\<lparr>accounts := (accounts s)
                     (accountId \<mapsto> acc\<lparr>balance := js_add (balance acc) (number_of amount)\<rparr>)\<rparr>))"

text \<open>\<^verbatim>\<open>POST /accounts/:id/withdraw\<close>\<close>

definition withdraw :: "jsnum \<Rightarrow> jsval \<Rightarrow> string \<Rightarrow> state \<Rightarrow> response \<times> state" where
  "withdraw accountId amount uuid s =
     (case accounts s accountId of
        None \<Rightarrow> (AccountNotFound, s)
      | Some acc \<Rightarrow>
          if typeof amount \<noteq> ''number'' \<or> js_le (number_of amount) (Fin 0)
          then (InvalidWithdrawalAmount, s)
          else if js_lt (balance acc) (number_of amount) then (InsufficientFunds, s)
          else (\<lparr>status = 200, body = TransactionIdBody uuid\<rparr>,
                s\<lparr>accounts := (accounts s)
                     (accountId \<mapsto> acc\<lparr>balance := js_sub (balance acc) (number_of amount)\<rparr>)\<rparr>))"

text \<open>\<^verbatim>\<open>GET /accounts/:id/balance\<close>\<close>

definition getBalance :: "jsnum \<Rightarrow> state \<Rightarrow> response \<times> state" where
  "getBalance accountId s =
     (case accounts s accountId of
        None \<Rightarrow> (AccountNotFound, s)
      | Some acc \<Rightarrow> (\<lparr>status = 200, body = BalanceBody (balance acc)\<rparr>, s))"

text \<open>
  A call to the store, and a sequence of calls run one after the other, each on the
  state the one before left.
\<close>

datatype call =
    CreateAccount
  | Deposit jsnum jsval string
  | Withdraw jsnum jsval string
  | GetBalance jsnum

fun handle :: "call \<Rightarrow> state \<Rightarrow> response \<times> state" where
  "handle CreateAccount s = createAccount s"
| "handle (Deposit accountId amount uuid) s = deposit accountId amount uuid s"
| "handle (Withdraw accountId amount uuid) s = withdraw accountId amount uuid s"
| "handle (GetBalance accountId) s = getBalance accountId s"

fun run :: "call list \<Rightarrow> state \<Rightarrow> state" where
  "run [] s = s"
| "run (c # cs) s = run cs (snd (handle c s))"

primrec creates :: "nat \<Rightarrow> state \<Rightarrow> state" where
  "creates 0 s = s"
| "creates (Suc n) s = snd (createAccount (creates n s))"

text \<open>The amount a call supplies, if it supplies one.\<close>

fun amount_of :: "call \<Rightarrow> jsval option" where
  "amount_of (Deposit _ amount _) = Some amount"
| "amount_of (Withdraw _ amount _) = Some amount"
| "amount_of _ = None"

definition no_NaN_or_Infinity :: "call list \<Rightarrow> bool" where
  "no_NaN_or_Infinity cs =
     list_all (\<lambda>c. amount_of c \<noteq> Some (JNumber NaN) \<and> amount_of c \<noteq> Some (JNumber PosInf)) cs"

definition balances_ge0 :: "state \<Rightarrow> bool" where
  "balances_ge0 s = (\<forall>k acc. accounts s k = Some acc \<longrightarrow> js_le (Fin 0) (balance acc))"

definition balances_not_negative :: "state \<Rightarrow> bool" where
  "balances_not_negative s = (\<forall>k acc. accounts s k = Some acc \<longrightarrow> \<not> js_lt (balance acc) (Fin 0))"

section \<open>The authorization gate\<close>

text \<open>
  The payload that \<^verbatim>\<open>/login\<close> signs, and what a verified token decodes to: the payload
  with the times of issue and of expiry, in seconds.
\<close>

record payload =
  username :: jsval
  role :: string

record decoded = payload +
  issuedAt :: nat
  expiresAt :: nat

record request =
  authorization :: "string option"
  admin :: "decoded option"

text \<open>
  \<^verbatim>\<open>verifyToken(req, res, next)\<close>. \<open>verify token\<close> stands for the call
  \<^verbatim>\<open>jwt.verify(token, jwtSecret, callback)\<close> of the jsonwebtoken library: \<open>None\<close>
  when the callback receives an error, the decoded payload otherwise. The result is the
  response sent (\<open>Inl\<close>), or the request handed to \<^verbatim>\<open>next()\<close> (\<open>Inr\<close>).
\<close>

definition verifyToken :: "(string option \<Rightarrow> decoded option) \<Rightarrow> request \<Rightarrow> response + request" where
  "verifyToken verify req =
     (case authorization req of
        Some bearerHeader \<Rightarrow>
          (let token = index (split CHR '' '' bearerHeader) 1
           in case verify token of
                None \<Rightarrow> Inl InvalidCredential
              | Some decoded \<Rightarrow> Inr (req\<lparr>admin := Some decoded\<rparr>))
      | None \<Rightarrow> Inl MissingCredential)"

text \<open>A route registered as \<^verbatim>\<open>app.post(path, verifyToken, handler)\<close>.\<close>

definition protected ::
  "(string option \<Rightarrow> decoded option) \<Rightarrow> (state \<Rightarrow> response \<times> state) \<Rightarrow>
     request \<Rightarrow> state \<Rightarrow> response \<times> state" where
  "protected verify handler req s =
     (case verifyToken verify req of
        Inl res \<Rightarrow> (res, s)
      | Inr req' \<Rightarrow> handler s)"

definition post_accounts ::
  "(string option \<Rightarrow> decoded option) \<Rightarrow> request \<Rightarrow> state \<Rightarrow> response \<times> state" where
  "post_accounts verify = protected verify createAccount"

definition post_deposit ::
  "(string option \<Rightarrow> decoded option) \<Rightarrow> jsnum \<Rightarrow> jsval \<Rightarrow> string \<Rightarrow>
     request \<Rightarrow> state \<Rightarrow> response \<times> state" where
  "post_deposit verify accountId amount uuid = protected verify (deposit accountId amount uuid)"

definition post_withdraw ::
  "(string option \<Rightarrow> decoded option) \<Rightarrow> jsnum \<Rightarrow> jsval \<Rightarrow> string \<Rightarrow>
     request \<Rightarrow> state \<Rightarrow> response \<times> state" where
  "post_withdraw verify accountId amount uuid = protected verify (withdraw accountId amount uuid)"

definition get_balance ::
  "(string option \<Rightarrow> decoded option) \<Rightarrow> jsnum \<Rightarrow> request \<Rightarrow> state \<Rightarrow> response \<times> state" where
  "get_balance verify accountId = protected verify (getBalance accountId)"

section \<open>Issuing and verifying tokens\<close>

definition adminUsername :: string where "adminUsername = ''admin''"
definition adminPassword :: string where "adminPassword = ''admin''"
definition jwtSecret :: string where "jwtSecret = ''56025E0C0FA4CBC84F060DAD39D8116B7B3161FC''"

text \<open>\<^verbatim>\<open>tokenExpiry = "1h"\<close>, in seconds.\<close>

definition tokenExpiry :: nat where "tokenExpiry = 3600"

text \<open>
  The serialisation of a token and its signature belong to the jsonwebtoken library and
  are parameters: \<open>encode\<close> writes claims and a signature as a token, \<open>decode\<close> reads a
  token back (\<open>None\<close> for a malformed one, no signature for an unsigned one), and
  \<open>mac secret claims\<close> is the signature that the secret gives the claims.
\<close>

record codec =
  encode :: "decoded \<Rightarrow> string \<Rightarrow> string"
  decode :: "string \<Rightarrow> (decoded \<times> string option) option"
  mac :: "string \<Rightarrow> decoded \<Rightarrow> string"

text \<open>
  Modelled from the spec: \<^verbatim>\<open>jwt.sign\<close> of the jsonwebtoken library, which is not part of
  the sources, as \<open>TokenService.issue\<close>: the credential encodes the identity, the role,
  the time of issue and the time of expiry, a fixed validity window after the issue.
\<close>

definition TokenService_issue :: "codec \<Rightarrow> payload \<Rightarrow> string \<Rightarrow> nat \<Rightarrow> nat \<Rightarrow> string" where
  "TokenService_issue cd p secret expiresIn now =
     (let claims = \<lparr>username = username p, role = role p,
                     issuedAt = now, expiresAt = now + expiresIn\<rparr>
      in encode cd claims (mac cd secret claims))"

text \<open>
  Modelled from the spec: \<^verbatim>\<open>jwt.verify\<close> of the jsonwebtoken library, which is not part
  of the sources, as \<open>TokenService.verify\<close>: it fails if the structure is malformed, if
  the signature does not match, or if the current time is past the expiry, and gives
  the decoded claims otherwise.
\<close>

definition TokenService_verify :: "codec \<Rightarrow> string \<Rightarrow> nat \<Rightarrow> string option \<Rightarrow> decoded option" where
  "TokenService_verify cd secret now token =
     (case token of
        None \<Rightarrow> None
      | Some t \<Rightarrow>
          (case decode cd t of
             None \<Rightarrow> None
           | Some (claims, signature) \<Rightarrow>
               if signature \<noteq> Some (mac cd secret claims) then None
               else if expiresAt claims < now then None
               else Some claims))"

text \<open>\<^verbatim>\<open>POST /login\<close>, at the time \<open>now\<close>.\<close>

definition login :: "codec \<Rightarrow> nat \<Rightarrow> jsval \<Rightarrow> jsval \<Rightarrow> response" where
  "login cd now username_field password_field =
     (if username_field = JString adminUsername \<and> password_field = JString adminPassword
      then \<lparr>status = 200,
            body = TokenBody (TokenService_issue cd \<lparr>username = username_field, role = ''admin''\<rparr>
                                jwtSecret tokenExpiry now)\<rparr>
      else \<lparr>status = 401, body = ErrorBody ''Invalid credentials''\<rparr>)"

section \<open>Arithmetic of Numbers\<close>

lemma pow2_pos: "0 < pow2 e"
  by (simp add: pow2_def)

lemma rne_nonneg: "0 \<le> q \<Longrightarrow> 0 \<le> rne q"
  by (simp add: rne_def Let_def)

lemma rne_of_int: "rne (of_int k) = k"
  by (simp add: rne_def Let_def)

lemma round64_pos_cases:
  "0 < q \<Longrightarrow> round64_pos q = PosInf \<or> (\<exists>r. 0 \<le> r \<and> round64_pos q = Fin r)"
  by (auto simp: round64_pos_def Let_def pow2_pos rne_nonneg less_imp_le)

lemma round64_ge0: "0 \<le> q \<Longrightarrow> js_le (Fin 0) (round64 q)"
  using round64_pos_cases [of q] by (auto simp: round64_def)

lemma ilog2_of_int:
  assumes "0 < n"
  shows "0 \<le> ilog2 (of_int n) \<and> 2 ^ nat (ilog2 (of_int n)) \<le> n \<and> n < 2 * 2 ^ nat (ilog2 (of_int n))"
proof -
  define l where "l = floorlog 2 (nat n)"
  have pos: "0 < nat n" using assms by simp
  from floorlog_bounds [OF pos, of 2]
  have b: "2 ^ (l - 1) \<le> nat n" "nat n < 2 ^ l" by (simp_all add: l_def)
  have l1: "1 \<le> l" using pos by (simp add: floorlog_def l_def)
  have one: "floorlog 2 (Suc 0) = 1" by (simp add: floorlog_def)
  have "int (2 ^ (l - 1)) \<le> int (nat n)" using b(1) by (simp only: of_nat_le_iff)
  then have lo: "(2::int) ^ (l - 1) \<le> n" using assms by simp
  have "int (nat n) < int (2 ^ l)" using b(2) by (simp only: of_nat_less_iff)
  then have hi: "n < (2::int) ^ l" using assms by simp
  have "(of_int (2 ^ (l - 1)) :: rat) \<le> of_int n" using lo by (simp only: of_int_le_iff)
  then have "\<not> (of_int n :: rat) < 2 ^ (l - 1)" by simp
  then have il: "ilog2 (of_int n) = int l - 1"
    using l1 by (simp add: ilog2_def one pow2_def l_def [symmetric] nat_diff_distrib)
  have n: "nat (int l - 1) = l - 1" by simp
  have "l = Suc (l - 1)" using l1 by simp
  then have "(2::int) ^ l = 2 * 2 ^ (l - 1)" by (metis power_Suc)
  with lo hi il n l1 show ?thesis by simp
qed


lemma pow2_nonpos: "e \<le> 0 \<Longrightarrow> pow2 e = 1 / 2 ^ nat (- e)"
  by (cases "e = 0") (simp_all add: pow2_def)

lemma no_overflow: "n \<le> 2 ^ 53 \<Longrightarrow> \<not> pow2 1024 \<le> (of_int n :: rat)"
proof -
  assume "n \<le> 2 ^ 53"
  then have "(of_int n :: rat) \<le> of_int (2 ^ 53)" by (simp only: of_int_le_iff)
  moreover have "(of_int (2 ^ 53) :: rat) < pow2 1024" by (simp add: pow2_def)
  ultimately show ?thesis by simp
qed

lemma round64_pos_of_int:
  assumes "0 < n" "n \<le> 2 ^ 53"
  shows "round64_pos (of_int n) = Fin (of_int n)"
proof -
  define e where "e = ilog2 (of_int n)"
  from ilog2_of_int [OF assms(1)]
  have e0: "0 \<le> e" and lo: "2 ^ nat e \<le> n" and hi: "n < 2 * 2 ^ nat e"
    by (simp_all add: e_def)
  have "(2::int) ^ nat e \<le> 2 ^ 53" using lo assms(2) by simp
  then have "nat e \<le> 53" by (simp only: power_increasing_iff [of 2])
  then have e53: "e \<le> 53" by simp
  have m: "max e (- 1022) = e" using e0 by simp
  have r: "of_int (rne (of_int n / pow2 (e - 52))) * pow2 (e - 52) = (of_int n :: rat)"
  proof (cases "e \<le> 52")
    case True
    then have p: "pow2 (e - 52) = 1 / 2 ^ nat (52 - e)"
      using pow2_nonpos [of "e - 52"] by simp
    have "(of_int n :: rat) / pow2 (e - 52) = of_int (n * 2 ^ nat (52 - e))"
      by (simp add: p)
    then have "rne (of_int n / pow2 (e - 52)) = n * 2 ^ nat (52 - e)"
      by (simp only: rne_of_int)
    then show ?thesis by (simp add: p)
  next
    case False
    then have e: "e = 53" using e53 by simp
    then have n: "n = 2 ^ 53" using lo assms(2) by simp
    have p: "pow2 (e - 52) = 2" by (simp add: e pow2_def)
    have "(of_int n :: rat) / 2 = of_int (2 ^ 52)" by (simp add: n)
    then have "rne (of_int n / 2) = 2 ^ 52" by (simp only: rne_of_int)
    then show ?thesis by (simp add: p n)
  qed
  show ?thesis
    using no_overflow [OF assms(2)]
    by (simp add: round64_pos_def Let_def e_def [symmetric] m r)
qed

lemma round64_of_int:
  "0 \<le> n \<Longrightarrow> n \<le> 2 ^ 53 \<Longrightarrow> round64 (of_int n) = Fin (of_int n)"
  by (cases "n = 0") (simp_all add: round64_def round64_pos_of_int)

lemma js_add_int:
  "0 \<le> a \<Longrightarrow> 0 \<le> b \<Longrightarrow> a + b \<le> 2 ^ 53 \<Longrightarrow>
     js_add (Fin (of_int a)) (Fin (of_int b)) = Fin (of_int (a + b))"
  using round64_of_int [of "a + b"] by simp

lemma round64_numeral:
  "(numeral k :: int) \<le> 2 ^ 53 \<Longrightarrow> round64 (numeral k) = Fin (numeral k)"
  using round64_of_int [of "numeral k"] by simp

lemma round64_one: "round64 1 = Fin 1"
  using round64_of_int [of 1] by simp

lemma ilog2_eqI:
  assumes "2 ^ k \<le> n" "n < 2 * 2 ^ k"
  shows "ilog2 (of_int n) = int k"
proof -
  have pos: "0 < n" using assms(1) by (smt (verit) zero_less_power)
  define e where "e = nat (ilog2 (of_int n))"
  from ilog2_of_int [OF pos]
  have e0: "0 \<le> ilog2 (of_int n)" and lo: "2 ^ e \<le> n" and hi: "n < 2 * 2 ^ e"
    by (simp_all add: e_def)
  have "(2::int) ^ e < 2 ^ Suc k" using lo assms(2) by simp
  then have a: "e < Suc k" by (simp only: power_strict_increasing_iff [of 2])
  have "(2::int) ^ k < 2 ^ Suc e" using hi assms(1) by simp
  then have b: "k < Suc e" by (simp only: power_strict_increasing_iff [of 2])
  from a b have "e = k" by simp
  with e0 show ?thesis by (simp add: e_def)
qed

lemma ilog2_big: "ilog2 9007199254740993 = 53"
  using ilog2_eqI [of 53 9007199254740993] by simp

lemma floor_big: "\<lfloor>(9007199254740993::rat) / 2\<rfloor> = 4503599627370496"
  by (simp add: floor_eq_iff)

lemma round64_big: "round64 9007199254740993 = Fin 9007199254740992"
  by (simp add: round64_def round64_pos_def ilog2_big pow2_def rne_def Let_def floor_big)

lemma js_add_big: "js_add (Fin 9007199254740992) (Fin 1) = Fin 9007199254740992"
  by (simp add: round64_big)

section \<open>The balance never goes below zero\<close>

lemma not_lt0_iff: "\<not> js_lt b (Fin 0) \<longleftrightarrow> b = NaN \<or> js_le (Fin 0) b"
  by (cases b) auto

lemma js_add_ge0:
  "js_le (Fin 0) b \<Longrightarrow> \<not> js_le a (Fin 0) \<Longrightarrow> a \<noteq> NaN \<Longrightarrow> js_le (Fin 0) (js_add b a)"
  by (cases b; cases a) (auto intro: round64_ge0)

lemma js_sub_ge0:
  "js_le (Fin 0) b \<Longrightarrow> \<not> js_le a (Fin 0) \<Longrightarrow> \<not> js_lt b a \<Longrightarrow> a \<noteq> NaN \<Longrightarrow> a \<noteq> PosInf
     \<Longrightarrow> js_le (Fin 0) (js_sub b a)"
  by (cases b; cases a) (auto simp: js_sub_def intro: round64_ge0)

lemma js_add_not_negative:
  "\<not> js_lt b (Fin 0) \<Longrightarrow> \<not> js_le a (Fin 0) \<Longrightarrow> \<not> js_lt (js_add b a) (Fin 0)"
  unfolding not_lt0_iff by (cases b; cases a) (auto intro: round64_ge0)

lemma js_sub_not_negative:
  "\<not> js_lt b (Fin 0) \<Longrightarrow> \<not> js_le a (Fin 0) \<Longrightarrow> \<not> js_lt b a \<Longrightarrow> \<not> js_lt (js_sub b a) (Fin 0)"
  unfolding not_lt0_iff by (cases b; cases a) (auto simp: js_sub_def intro: round64_ge0)

lemma handle_not_negative:
  "balances_not_negative s \<Longrightarrow> balances_not_negative (snd (handle c s))"
  by (cases c)
     (auto simp: balances_not_negative_def createAccount_def deposit_def withdraw_def
        getBalance_def Let_def js_add_not_negative js_sub_not_negative split: option.splits)

lemma handle_ge0:
  assumes "balances_ge0 s"
    and "amount_of c \<noteq> Some (JNumber NaN)" "amount_of c \<noteq> Some (JNumber PosInf)"
  shows "balances_ge0 (snd (handle c s))"
proof (cases c)
  case CreateAccount
  with assms(1) show ?thesis
    by (auto simp: balances_ge0_def createAccount_def Let_def)
next
  case (Deposit i amount u)
  with assms show ?thesis
    by (cases amount)
       (auto simp: balances_ge0_def deposit_def js_add_ge0 split: option.splits)
next
  case (Withdraw i amount u)
  with assms show ?thesis
    by (cases amount)
       (auto simp: balances_ge0_def withdraw_def js_sub_ge0 split: option.splits)
next
  case (GetBalance i)
  with assms(1) show ?thesis
    by (auto simp: getBalance_def split: option.splits)
qed

lemma run_not_negative:
  "balances_not_negative s \<Longrightarrow> balances_not_negative (run cs s)"
  by (induction cs arbitrary: s) (simp_all add: handle_not_negative)

lemma run_ge0:
  "balances_ge0 s \<Longrightarrow> no_NaN_or_Infinity cs \<Longrightarrow> balances_ge0 (run cs s)"
  by (induction cs arbitrary: s) (simp_all add: no_NaN_or_Infinity_def handle_ge0)

text \<open>
  What the checks of the handlers do keep. A balance that is not below zero is not
  below zero after any sequence of calls; and a sequence in which no amount is NaN or
  Infinity keeps every balance at or above zero.
\<close>

lemma balance_never_negative:
  "(balances_not_negative s \<longrightarrow> balances_not_negative (run cs s)) \<and>
   (balances_ge0 s \<and> no_NaN_or_Infinity cs \<longrightarrow> balances_ge0 (run cs s))"
  by (simp add: run_not_negative run_ge0)

text \<open>
  The same at a concrete run: an account is opened, 100 is put in, 30 is taken out, and
  a withdrawal of \<^verbatim>\<open>"abc"\<close> is refused.
\<close>

lemma balance_never_negative_witness:
  "balances_not_negative init \<and> balances_ge0 init \<and>
   no_NaN_or_Infinity [CreateAccount, Deposit (Fin 1) (JNumber (Fin 100)) ''t1'',
                       Withdraw (Fin 1) (JNumber (Fin 30)) ''t2'', Withdraw (Fin 1) (JString ''abc'') ''t3''] \<and>
   balances_not_negative (run [CreateAccount, Deposit (Fin 1) (JNumber (Fin 100)) ''t1'',
                       Withdraw (Fin 1) (JNumber (Fin 30)) ''t2'', Withdraw (Fin 1) (JString ''abc'') ''t3''] init) \<and>
   balances_ge0 (run [CreateAccount, Deposit (Fin 1) (JNumber (Fin 100)) ''t1'',
                       Withdraw (Fin 1) (JNumber (Fin 30)) ''t2'', Withdraw (Fin 1) (JString ''abc'') ''t3''] init)"
  using balance_never_negative [of init "[CreateAccount, Deposit (Fin 1) (JNumber (Fin 100)) ''t1'',
                       Withdraw (Fin 1) (JNumber (Fin 30)) ''t2'', Withdraw (Fin 1) (JString ''abc'') ''t3'']"]
  by (simp add: balances_not_negative_def balances_ge0_def init_def no_NaN_or_Infinity_def)

text \<open>
  C1. The balance of an account is to be at or above zero after every sequence of
  deposits and withdrawals. The handlers miss this for an amount of Infinity, which a
  body \<^verbatim>\<open>{"amount": 1e999}\<close> holds: the check \<^verbatim>\<open>amount <= 0\<close> lets it through, the
  deposit answers 200, every later withdrawal of a finite amount answers 200 as well,
  since \<^verbatim>\<open>balance < amount\<close> is false, and a withdrawal of Infinity leaves the balance
  at NaN, for which \<^verbatim>\<open>0 <= balance\<close> is false.
\<close>

theorem infinity_breaks_balance:
  "fst (deposit (Fin 1) (JNumber PosInf) ''t1'' (run [CreateAccount] init))
     = \<lparr>status = 200, body = TransactionIdBody ''t1''\<rparr> \<and>
   fst (withdraw (Fin 1) (JNumber (Fin 1000000)) ''t2''
         (run [CreateAccount, Deposit (Fin 1) (JNumber PosInf) ''t1''] init))
     = \<lparr>status = 200, body = TransactionIdBody ''t2''\<rparr> \<and>
   accounts (run [CreateAccount, Deposit (Fin 1) (JNumber PosInf) ''t1'',
                  Withdraw (Fin 1) (JNumber PosInf) ''t2''] init) (Fin 1)
     = Some \<lparr>id' = Fin 1, balance = NaN\<rparr> \<and>
   \<not> js_le (Fin 0) NaN"
  by (simp add: init_def createAccount_def deposit_def withdraw_def js_sub_def Let_def)

text \<open>
  C1, read back: after that run the balance read of account 1 answers 200 with NaN.
\<close>

theorem infinity_breaks_balance_witness:
  "fst (getBalance (Fin 1)
         (run [CreateAccount, Deposit (Fin 1) (JNumber PosInf) ''t1'',
               Withdraw (Fin 1) (JNumber PosInf) ''t2''] init))
     = \<lparr>status = 200, body = BalanceBody NaN\<rparr>"
  using infinity_breaks_balance by (simp add: getBalance_def del: run.simps)

section \<open>Validation and failures\<close>

lemmas response_defs =
  AccountNotFound_def InvalidDepositAmount_def InvalidWithdrawalAmount_def InsufficientFunds_def
  MissingCredential_def InvalidCredential_def

lemma amount_accepted_iff:
  "(typeof amount = ''number'' \<and> \<not> js_le (number_of amount) (Fin 0)) \<longleftrightarrow>
     (\<exists>q. 0 < q \<and> amount = JNumber (Fin q)) \<or> amount = JNumber PosInf \<or> amount = JNumber NaN"
proof (cases amount)
  case (JNumber a)
  then show ?thesis by (cases a) auto
qed simp_all

text \<open>
  What the amount check of the handlers does. On an existing account, deposit and
  withdraw answer with the invalid-amount failure exactly when the amount fails
  \<^verbatim>\<open>typeof amount !== 'number' || amount <= 0\<close>; 0, -5 and \<^verbatim>\<open>"abc"\<close> are refused by
  both.
\<close>

lemma invalid_amount_iff:
  "(fst (deposit i amount u s) = InvalidDepositAmount \<longleftrightarrow>
      accounts s i \<noteq> None \<and> (\<forall>q. 0 < q \<longrightarrow> amount \<noteq> JNumber (Fin q)) \<and>
      amount \<noteq> JNumber PosInf \<and> amount \<noteq> JNumber NaN) \<and>
   (fst (withdraw i amount u s) = InvalidWithdrawalAmount \<longleftrightarrow>
      accounts s i \<noteq> None \<and> (\<forall>q. 0 < q \<longrightarrow> amount \<noteq> JNumber (Fin q)) \<and>
      amount \<noteq> JNumber PosInf \<and> amount \<noteq> JNumber NaN) \<and>
   (accounts s i \<noteq> None \<and> amount \<in> {JNumber (Fin 0), JNumber (Fin (- 5)), JString ''abc''} \<longrightarrow>
      fst (deposit i amount u s) = InvalidDepositAmount \<and>
      fst (withdraw i amount u s) = InvalidWithdrawalAmount)"
proof -
  have d: "fst (deposit i amount u s) = InvalidDepositAmount \<longleftrightarrow>
      accounts s i \<noteq> None \<and> \<not> (typeof amount = ''number'' \<and> \<not> js_le (number_of amount) (Fin 0))"
    by (auto simp: deposit_def response_defs split: option.splits)
  have w: "fst (withdraw i amount u s) = InvalidWithdrawalAmount \<longleftrightarrow>
      accounts s i \<noteq> None \<and> \<not> (typeof amount = ''number'' \<and> \<not> js_le (number_of amount) (Fin 0))"
    by (auto simp: withdraw_def response_defs split: option.splits)
  show ?thesis
    unfolding d w amount_accepted_iff by auto
qed

text \<open>
  The same at a concrete call: -5 on the first account of a fresh store.
\<close>

lemma invalid_amount_iff_witness:
  "accounts (snd (createAccount init)) (Fin 1) \<noteq> None \<and>
   JNumber (Fin (- 5)) \<in> {JNumber (Fin 0), JNumber (Fin (- 5)), JString ''abc''} \<and>
   fst (deposit (Fin 1) (JNumber (Fin (- 5))) ''t1'' (snd (createAccount init))) = InvalidDepositAmount \<and>
   fst (withdraw (Fin 1) (JNumber (Fin (- 5))) ''t1'' (snd (createAccount init))) = InvalidWithdrawalAmount"
  using invalid_amount_iff [of "Fin 1" "JNumber (Fin (- 5))" "''t1''" "snd (createAccount init)"]
  by (simp add: createAccount_def init_def Let_def)

text \<open>
  C2. An amount that is not a positive finite number is to be refused as an invalid
  amount by deposit and by withdraw. The check \<^verbatim>\<open>amount <= 0\<close> of both handlers misses
  the Numbers that are not finite: on an existing account a deposit of Infinity, which
  a body \<^verbatim>\<open>{"amount": 1e999}\<close> holds, answers 200, and a withdrawal of Infinity from a
  zero balance is refused for lack of funds, not for its amount; a deposit and a
  withdrawal of NaN answer 200.
\<close>

theorem infinity_not_refused:
  "fst (deposit (Fin 1) (JNumber PosInf) ''t1'' (snd (createAccount init)))
     = \<lparr>status = 200, body = TransactionIdBody ''t1''\<rparr> \<and>
   fst (deposit (Fin 1) (JNumber NaN) ''t1'' (snd (createAccount init)))
     = \<lparr>status = 200, body = TransactionIdBody ''t1''\<rparr> \<and>
   fst (withdraw (Fin 1) (JNumber NaN) ''t1'' (snd (createAccount init)))
     = \<lparr>status = 200, body = TransactionIdBody ''t1''\<rparr> \<and>
   fst (withdraw (Fin 1) (JNumber PosInf) ''t1'' (snd (createAccount init))) = InsufficientFunds"
  by (simp add: createAccount_def deposit_def withdraw_def init_def Let_def)

text \<open>
  C2, read back: the answer to the deposit of Infinity is not the invalid-amount failure,
  and neither is the answer to the withdrawal of Infinity.
\<close>

theorem infinity_not_refused_witness:
  "fst (deposit (Fin 1) (JNumber PosInf) ''t1'' (snd (createAccount init))) \<noteq> InvalidDepositAmount \<and>
   fst (withdraw (Fin 1) (JNumber PosInf) ''t1'' (snd (createAccount init))) \<noteq> InvalidWithdrawalAmount"
  using infinity_not_refused by (simp add: response_defs)

text \<open>
  C3. On an existing account and for a positive finite amount, withdraw fails with
  InsufficientFunds exactly when the amount is greater than the balance, and then the
  state, and so the balance, is what it was.
\<close>

theorem insufficient_funds_iff:
  "accounts s i = Some acc \<Longrightarrow> 0 < q \<Longrightarrow>
     (fst (withdraw i (JNumber (Fin q)) u s) = InsufficientFunds \<longleftrightarrow> js_gt (Fin q) (balance acc)) \<and>
     (fst (withdraw i (JNumber (Fin q)) u s) = InsufficientFunds \<longrightarrow>
        snd (withdraw i (JNumber (Fin q)) u s) = s \<and>
        map_option balance (accounts (snd (withdraw i (JNumber (Fin q)) u s)) i) = Some (balance acc))"
  by (auto simp: withdraw_def js_gt_def response_defs)

text \<open>
  C3, the theorem at a concrete call: 150 asked of a balance of 100.
\<close>

theorem insufficient_funds_iff_witness:
  "accounts (run [CreateAccount, Deposit (Fin 1) (JNumber (Fin 100)) ''t1''] init) (Fin 1)
     = Some \<lparr>id' = Fin 1, balance = Fin 100\<rparr> \<and> (0::rat) < 150 \<and>
   js_gt (Fin 150) (Fin 100) \<and>
   fst (withdraw (Fin 1) (JNumber (Fin 150)) ''t2''
         (run [CreateAccount, Deposit (Fin 1) (JNumber (Fin 100)) ''t1''] init)) = InsufficientFunds \<and>
   snd (withdraw (Fin 1) (JNumber (Fin 150)) ''t2''
         (run [CreateAccount, Deposit (Fin 1) (JNumber (Fin 100)) ''t1''] init))
     = run [CreateAccount, Deposit (Fin 1) (JNumber (Fin 100)) ''t1''] init"
proof -
  have a: "accounts (run [CreateAccount, Deposit (Fin 1) (JNumber (Fin 100)) ''t1''] init) (Fin 1)
     = Some \<lparr>id' = Fin 1, balance = Fin 100\<rparr>"
    by (simp add: createAccount_def deposit_def init_def Let_def round64_numeral)
  have q: "(0::rat) < 150" by simp
  have g: "js_gt (Fin 150) (Fin 100)" by (simp add: js_gt_def)
  from insufficient_funds_iff [OF a q, of "''t2''"] a q g show ?thesis by simp
qed

text \<open>
  C6. For an account id that the store does not hold, deposit, withdraw and the balance
  read each fail with AccountNotFound, whatever the amount.
\<close>

theorem unknown_account_not_found:
  "accounts s i = None \<Longrightarrow>
     fst (deposit i amount u s) = AccountNotFound \<and>
     fst (withdraw i amount u s) = AccountNotFound \<and>
     fst (getBalance i s) = AccountNotFound"
  by (simp add: deposit_def withdraw_def getBalance_def)

text \<open>
  C6, the theorem at a concrete call: account 7 of the empty store.
\<close>

theorem unknown_account_not_found_witness:
  "accounts init (Fin 7) = None \<and>
   fst (deposit (Fin 7) (JNumber (Fin 100)) ''t1'' init) = AccountNotFound \<and>
   fst (withdraw (Fin 7) (JNumber (Fin 100)) ''t1'' init) = AccountNotFound \<and>
   fst (getBalance (Fin 7) init) = AccountNotFound"
proof -
  have a: "accounts init (Fin 7) = None" by (simp add: init_def)
  from unknown_account_not_found [OF a] a show ?thesis by simp
qed

text \<open>
  C9. When deposit or withdraw fails with AccountNotFound, InvalidAmount or
  InsufficientFunds, the state after the call is the state before it: every account,
  the set of ids and the counter.
\<close>

theorem failure_leaves_state:
  "(fst (deposit i amount u s) \<in> {AccountNotFound, InvalidDepositAmount, InsufficientFunds}
      \<longrightarrow> snd (deposit i amount u s) = s) \<and>
   (fst (withdraw i amount u s) \<in> {AccountNotFound, InvalidWithdrawalAmount, InsufficientFunds}
      \<longrightarrow> snd (withdraw i amount u s) = s)"
  by (auto simp: deposit_def withdraw_def response_defs split: option.splits)

text \<open>
  C9, the theorem at concrete calls: a deposit of 0 and a withdrawal of 5 on a fresh
  account.
\<close>

theorem failure_leaves_state_witness:
  "fst (deposit (Fin 1) (JNumber (Fin 0)) ''t1'' (snd (createAccount init)))
     \<in> {AccountNotFound, InvalidDepositAmount, InsufficientFunds} \<and>
   snd (deposit (Fin 1) (JNumber (Fin 0)) ''t1'' (snd (createAccount init))) = snd (createAccount init) \<and>
   fst (withdraw (Fin 1) (JNumber (Fin 5)) ''t1'' (snd (createAccount init)))
     \<in> {AccountNotFound, InvalidWithdrawalAmount, InsufficientFunds} \<and>
   snd (withdraw (Fin 1) (JNumber (Fin 5)) ''t1'' (snd (createAccount init))) = snd (createAccount init)"
proof -
  have d: "fst (deposit (Fin 1) (JNumber (Fin 0)) ''t1'' (snd (createAccount init))) = InvalidDepositAmount"
    by (simp add: createAccount_def deposit_def init_def Let_def)
  have w: "fst (withdraw (Fin 1) (JNumber (Fin 5)) ''t1'' (snd (createAccount init))) = InsufficientFunds"
    by (simp add: createAccount_def withdraw_def init_def Let_def)
  from failure_leaves_state [of "Fin 1" "JNumber (Fin 0)" "''t1''" "snd (createAccount init)"]
       failure_leaves_state [of "Fin 1" "JNumber (Fin 5)" "''t1''" "snd (createAccount init)"] d w
  show ?thesis by simp
qed

text \<open>
  C10. A deposit or a withdrawal that succeeds leaves every other account as it was,
  keeps the id of the account it works on, and changes neither the set of ids nor the
  counter; a balance read changes nothing.
\<close>

theorem success_frame:
  "(status (fst (deposit i amount u s)) = 200 \<longrightarrow>
      (\<forall>j. j \<noteq> i \<longrightarrow> accounts (snd (deposit i amount u s)) j = accounts s j) \<and>
      map_option id' (accounts (snd (deposit i amount u s)) i) = map_option id' (accounts s i) \<and>
      dom (accounts (snd (deposit i amount u s))) = dom (accounts s) \<and>
      nextAccountId (snd (deposit i amount u s)) = nextAccountId s) \<and>
   (status (fst (withdraw i amount u s)) = 200 \<longrightarrow>
      (\<forall>j. j \<noteq> i \<longrightarrow> accounts (snd (withdraw i amount u s)) j = accounts s j) \<and>
      map_option id' (accounts (snd (withdraw i amount u s)) i) = map_option id' (accounts s i) \<and>
      dom (accounts (snd (withdraw i amount u s))) = dom (accounts s) \<and>
      nextAccountId (snd (withdraw i amount u s)) = nextAccountId s) \<and>
   snd (getBalance i s) = s"
  by (auto simp: deposit_def withdraw_def getBalance_def response_defs split: option.splits if_splits)

text \<open>
  C10, the theorem at a concrete call: 100 put into account 1 of a store with two
  accounts.
\<close>

theorem success_frame_witness:
  "status (fst (deposit (Fin 1) (JNumber (Fin 100)) ''t1'' (run [CreateAccount, CreateAccount] init))) = 200 \<and>
   accounts (snd (deposit (Fin 1) (JNumber (Fin 100)) ''t1'' (run [CreateAccount, CreateAccount] init))) (Fin 2)
     = accounts (run [CreateAccount, CreateAccount] init) (Fin 2) \<and>
   dom (accounts (snd (deposit (Fin 1) (JNumber (Fin 100)) ''t1'' (run [CreateAccount, CreateAccount] init))))
     = dom (accounts (run [CreateAccount, CreateAccount] init)) \<and>
   nextAccountId (snd (deposit (Fin 1) (JNumber (Fin 100)) ''t1'' (run [CreateAccount, CreateAccount] init)))
     = nextAccountId (run [CreateAccount, CreateAccount] init)"
proof -
  have a: "status (fst (deposit (Fin 1) (JNumber (Fin 100)) ''t1'' (run [CreateAccount, CreateAccount] init))) = 200"
    by (simp add: createAccount_def deposit_def init_def Let_def js_inc_def round64_numeral)
  have n: "Fin 2 \<noteq> Fin 1" by simp
  from success_frame [of "Fin 1" "JNumber (Fin 100)" "''t1''" "run [CreateAccount, CreateAccount] init"] a n
  show ?thesis by blast
qed

section \<open>Deposits\<close>




section \<open>Account ids\<close>

lemma js_inc_int:
  "0 \<le> n \<Longrightarrow> n < 2 ^ 53 \<Longrightarrow> js_inc (Fin (of_int n)) = Fin (of_int (n + 1))"
  using js_add_int [of n 1] by (simp add: js_inc_def)

lemma js_inc_nat:
  "Suc k < 2 ^ 53 \<Longrightarrow> js_inc (Fin (of_nat (Suc k))) = Fin (of_nat (Suc (Suc k)))"
proof -
  assume "Suc k < 2 ^ 53"
  then have "int (Suc k) < 2 ^ 53"
    by (metis of_nat_less_iff of_nat_numeral of_nat_power)
  then show ?thesis
    using js_inc_int [of "int (Suc k)"] by (simp add: add.commute)
qed

lemma creates_next:
  "Suc k \<le> 2 ^ 53 \<Longrightarrow> nextAccountId (creates k init) = Fin (of_nat (Suc k))"
proof (induction k)
  case 0
  show ?case by (simp add: init_def)
next
  case (Suc k)
  then have "Suc k < 2 ^ 53" by simp
  with Suc show ?case
    by (simp add: createAccount_def Let_def js_inc_nat del: of_nat_Suc)
qed

lemma creates_accounts:
  "Suc k \<le> 2 ^ 53 \<Longrightarrow>
     accounts (creates k init) (Fin (of_nat j)) =
       (if 1 \<le> j \<and> j \<le> k then Some \<lparr>id' = Fin (of_nat j), balance = Fin 0\<rparr> else None)"
proof (induction k)
  case 0
  show ?case by (simp add: init_def)
next
  case (Suc k)
  then have le: "Suc k \<le> 2 ^ 53" by simp
  have n: "nextAccountId (creates k init) = Fin (of_nat (Suc k))"
    using creates_next [OF le] .
  have inj: "(of_nat (Suc k) :: rat) = of_nat j \<longleftrightarrow> Suc k = j"
    by (simp only: of_nat_eq_iff)
  show ?case
    using Suc.IH [OF le] by (auto simp: createAccount_def Let_def n inj simp del: of_nat_Suc)
qed

text \<open>
  C7. Every call of createAccount answers 201, and a call admitted by the gate is such
  a call. With the counter at a whole number \<open>n\<close>, \<open>1 \<le> n < 2^53\<close>, the call stores an
  account with id \<open>n\<close> and balance 0 under \<open>n\<close>, returns \<open>n\<close> and moves the counter to
  \<open>n + 1\<close>. From the initial store, call number \<open>k + 1\<close> returns \<open>k + 1\<close>, an id not in
  use before: the ids start at 1 and each is one greater than the one before. The bound
  \<open>k + 1 < 2^53\<close> is that of the whole numbers a Number counts exactly; every store that
  a run can build holds fewer accounts than that.
\<close>

theorem create_allocates:
  "status (fst (createAccount s)) = 201 \<and>
   (verifyToken verify req = Inr req' \<longrightarrow> post_accounts verify req s = createAccount s) \<and>
   (1 \<le> n \<and> n < 2 ^ 53 \<and> nextAccountId s = Fin (of_int n) \<longrightarrow>
      createAccount s =
        (\<lparr>status = 201, body = AccountIdBody (Fin (of_int n))\<rparr>,
         \<lparr>accounts = (accounts s)(Fin (of_int n) \<mapsto> \<lparr>id' = Fin (of_int n), balance = Fin 0\<rparr>),
          nextAccountId = Fin (of_int (n + 1))\<rparr>)) \<and>
   (Suc k < 2 ^ 53 \<longrightarrow>
      fst (createAccount (creates k init)) = \<lparr>status = 201, body = AccountIdBody (Fin (of_nat (Suc k)))\<rparr> \<and>
      accounts (creates k init) (Fin (of_nat (Suc k))) = None \<and>
      accounts (creates (Suc k) init) (Fin (of_nat (Suc k)))
        = Some \<lparr>id' = Fin (of_nat (Suc k)), balance = Fin 0\<rparr> \<and>
      nextAccountId (creates (Suc k) init) = Fin (of_nat (Suc (Suc k))))"
proof -
  have a: "status (fst (createAccount s)) = 201"
    by (simp add: createAccount_def Let_def)
  have g: "verifyToken verify req = Inr req' \<longrightarrow> post_accounts verify req s = createAccount s"
    by (simp add: post_accounts_def protected_def)
  have b: "1 \<le> n \<and> n < 2 ^ 53 \<and> nextAccountId s = Fin (of_int n) \<longrightarrow>
      createAccount s =
        (\<lparr>status = 201, body = AccountIdBody (Fin (of_int n))\<rparr>,
         \<lparr>accounts = (accounts s)(Fin (of_int n) \<mapsto> \<lparr>id' = Fin (of_int n), balance = Fin 0\<rparr>),
          nextAccountId = Fin (of_int (n + 1))\<rparr>)"
    using js_inc_int [of n] by (auto simp: createAccount_def Let_def)
  have c: "Suc k < 2 ^ 53 \<longrightarrow>
      fst (createAccount (creates k init)) = \<lparr>status = 201, body = AccountIdBody (Fin (of_nat (Suc k)))\<rparr> \<and>
      accounts (creates k init) (Fin (of_nat (Suc k))) = None \<and>
      accounts (creates (Suc k) init) (Fin (of_nat (Suc k)))
        = Some \<lparr>id' = Fin (of_nat (Suc k)), balance = Fin 0\<rparr> \<and>
      nextAccountId (creates (Suc k) init) = Fin (of_nat (Suc (Suc k)))"
  proof
    assume k: "Suc k < 2 ^ 53"
    then have le: "Suc k \<le> 2 ^ 53" and le': "Suc (Suc k) \<le> 2 ^ 53" by simp_all
    have 1: "fst (createAccount (creates k init))
        = \<lparr>status = 201, body = AccountIdBody (Fin (of_nat (Suc k)))\<rparr>"
      using creates_next [OF le] by (simp add: createAccount_def Let_def del: of_nat_Suc)
    have 2: "accounts (creates k init) (Fin (of_nat (Suc k))) = None"
      using creates_accounts [OF le, of "Suc k"] by simp
    have 3: "accounts (creates (Suc k) init) (Fin (of_nat (Suc k)))
        = Some \<lparr>id' = Fin (of_nat (Suc k)), balance = Fin 0\<rparr>"
      using creates_accounts [OF le', of "Suc k"] by simp
    from 1 2 3 creates_next [OF le'] show "fst (createAccount (creates k init))
        = \<lparr>status = 201, body = AccountIdBody (Fin (of_nat (Suc k)))\<rparr> \<and>
      accounts (creates k init) (Fin (of_nat (Suc k))) = None \<and>
      accounts (creates (Suc k) init) (Fin (of_nat (Suc k)))
        = Some \<lparr>id' = Fin (of_nat (Suc k)), balance = Fin 0\<rparr> \<and>
      nextAccountId (creates (Suc k) init) = Fin (of_nat (Suc (Suc k)))"
      by blast
  qed
  from a g b c show ?thesis by blast
qed

text \<open>
  C7, the theorem at the initial store: the first call, through the gate, returns 1,
  and the second returns 2.
\<close>

theorem create_allocates_witness:
  "verifyToken (\<lambda>t. Some \<lparr>username = JString ''admin'', role = ''admin'', issuedAt = 0, expiresAt = 3600\<rparr>)
      \<lparr>authorization = Some ''Bearer abc'', admin = None\<rparr>
     = Inr \<lparr>authorization = Some ''Bearer abc'',
            admin = Some \<lparr>username = JString ''admin'', role = ''admin'',
                          issuedAt = 0, expiresAt = 3600\<rparr>\<rparr> \<and>
   (1::int) \<le> 1 \<and> (1::int) < 2 ^ 53 \<and> nextAccountId init = Fin (of_int 1) \<and> Suc 1 < 2 ^ 53 \<and>
   post_accounts (\<lambda>t. Some \<lparr>username = JString ''admin'', role = ''admin'', issuedAt = 0, expiresAt = 3600\<rparr>)
      \<lparr>authorization = Some ''Bearer abc'', admin = None\<rparr> init
     = (\<lparr>status = 201, body = AccountIdBody (Fin 1)\<rparr>,
        \<lparr>accounts = [Fin 1 \<mapsto> \<lparr>id' = Fin 1, balance = Fin 0\<rparr>], nextAccountId = Fin 2\<rparr>) \<and>
   fst (createAccount (creates 1 init)) = \<lparr>status = 201, body = AccountIdBody (Fin 2)\<rparr> \<and>
   accounts (creates 1 init) (Fin 2) = None \<and>
   accounts (creates (Suc 1) init) (Fin 2) = Some \<lparr>id' = Fin 2, balance = Fin 0\<rparr>"
proof -
  let ?d = "\<lparr>username = JString ''admin'', role = ''admin'', issuedAt = 0, expiresAt = 3600\<rparr>"
  let ?v = "\<lambda>t::string option. Some ?d"
  let ?r = "\<lparr>authorization = Some ''Bearer abc'', admin = None\<rparr>"
  have g: "verifyToken ?v ?r = Inr (?r\<lparr>admin := Some ?d\<rparr>)"
    by (simp add: verifyToken_def)
  have n: "(1::int) \<le> 1 \<and> (1::int) < 2 ^ 53 \<and> nextAccountId init = Fin (of_int 1)"
    by (simp add: init_def)
  have k: "Suc 1 < 2 ^ 53" by simp
  note t = create_allocates [of init ?v ?r "?r\<lparr>admin := Some ?d\<rparr>" 1 1]
  from t g have 1: "post_accounts ?v ?r init = createAccount init" by blast
  from t n have 2: "createAccount init =
        (\<lparr>status = 201, body = AccountIdBody (Fin (of_int 1))\<rparr>,
         \<lparr>accounts = (accounts init)(Fin (of_int 1) \<mapsto> \<lparr>id' = Fin (of_int 1), balance = Fin 0\<rparr>),
          nextAccountId = Fin (of_int (1 + 1))\<rparr>)" by blast
  from t k have 3: "fst (createAccount (creates 1 init))
        = \<lparr>status = 201, body = AccountIdBody (Fin (of_nat (Suc 1)))\<rparr> \<and>
      accounts (creates 1 init) (Fin (of_nat (Suc 1))) = None \<and>
      accounts (creates (Suc 1) init) (Fin (of_nat (Suc 1)))
        = Some \<lparr>id' = Fin (of_nat (Suc 1)), balance = Fin 0\<rparr>" by blast
  have i: "accounts init = Map.empty" by (simp add: init_def)
  have e: "(of_nat (Suc 1) :: rat) = 2" by simp
  from 3 have c3: "fst (createAccount (creates 1 init)) = \<lparr>status = 201, body = AccountIdBody (Fin 2)\<rparr> \<and>
      accounts (creates 1 init) (Fin 2) = None \<and>
      accounts (creates (Suc 1) init) (Fin 2) = Some \<lparr>id' = Fin 2, balance = Fin 0\<rparr>"
    by (simp only: e)
  from 2 have c2: "createAccount init = (\<lparr>status = 201, body = AccountIdBody (Fin 1)\<rparr>,
        \<lparr>accounts = [Fin 1 \<mapsto> \<lparr>id' = Fin 1, balance = Fin 0\<rparr>], nextAccountId = Fin 2\<rparr>)"
    by (simp add: i)
  from g n k 1 c2 c3 show ?thesis by (simp del: creates.simps)
qed

section \<open>Admission\<close>

lemma split_no_sep: "sep \<notin> set t \<Longrightarrow> split sep t = [t]"
  by (induction t) auto

lemma bearer_token:
  "CHR '' '' \<notin> set t \<Longrightarrow> index (split CHR '' '' (''Bearer '' @ t)) 1 = Some t"
  by (simp add: split_no_sep index_def)

text \<open>
  C5. Without an authorization header the gate answers MissingCredential. With one, it
  hands the second space-separated field, the token of \<^verbatim>\<open>Bearer <token>\<close>, to the
  verification; it answers InvalidCredential exactly when the verification fails, and
  otherwise passes the request on with the decoded payload attached. A route answers
  what the gate answered and leaves the state alone, or runs its handler.
\<close>

theorem gate_behaviour:
  "(authorization req = None \<longrightarrow> verifyToken verify req = Inl MissingCredential) \<and>
   (authorization req = Some h \<longrightarrow>
      (verifyToken verify req = Inl InvalidCredential
         \<longleftrightarrow> verify (index (split CHR '' '' h) 1) = None) \<and>
      (verify (index (split CHR '' '' h) 1) = Some d
         \<longrightarrow> verifyToken verify req = Inr (req\<lparr>admin := Some d\<rparr>))) \<and>
   (CHR '' '' \<notin> set t \<longrightarrow> index (split CHR '' '' (''Bearer '' @ t)) 1 = Some t) \<and>
   (verifyToken verify req = Inl res \<longrightarrow> protected verify handler req s = (res, s)) \<and>
   (verifyToken verify req = Inr req' \<longrightarrow> protected verify handler req s = handler s)"
  by (auto simp: verifyToken_def protected_def split_no_sep index_def Let_def split: option.splits)

text \<open>
  C5, the theorem at concrete requests: one with the header \<^verbatim>\<open>Bearer abc\<close>, where
  \<^verbatim>\<open>abc\<close> verifies, and one with no header.
\<close>

theorem gate_behaviour_witness:
  "authorization \<lparr>authorization = Some ''Bearer abc'', admin = None\<rparr> = Some ''Bearer abc'' \<and>
   authorization \<lparr>authorization = None, admin = None\<rparr> = None \<and>
   CHR '' '' \<notin> set ''abc'' \<and>
   (\<lambda>t. if t = Some ''abc'' then Some \<lparr>username = JString ''admin'', role = ''admin'',
                                         issuedAt = 0, expiresAt = 3600\<rparr> else None)
      (index (split CHR '' '' ''Bearer abc'') 1)
     = Some \<lparr>username = JString ''admin'', role = ''admin'', issuedAt = 0, expiresAt = 3600\<rparr> \<and>
   verifyToken (\<lambda>t. if t = Some ''abc'' then Some \<lparr>username = JString ''admin'', role = ''admin'',
                                         issuedAt = 0, expiresAt = 3600\<rparr> else None)
      \<lparr>authorization = None, admin = None\<rparr> = Inl MissingCredential \<and>
   verifyToken (\<lambda>t. if t = Some ''abc'' then Some \<lparr>username = JString ''admin'', role = ''admin'',
                                         issuedAt = 0, expiresAt = 3600\<rparr> else None)
      \<lparr>authorization = Some ''Bearer abc'', admin = None\<rparr>
     = Inr \<lparr>authorization = Some ''Bearer abc'',
            admin = Some \<lparr>username = JString ''admin'', role = ''admin'',
                          issuedAt = 0, expiresAt = 3600\<rparr>\<rparr> \<and>
   protected (\<lambda>t. if t = Some ''abc'' then Some \<lparr>username = JString ''admin'', role = ''admin'',
                                         issuedAt = 0, expiresAt = 3600\<rparr> else None)
      createAccount \<lparr>authorization = Some ''Bearer abc'', admin = None\<rparr> init = createAccount init"
proof -
  let ?v = "\<lambda>t. if t = Some ''abc'' then Some \<lparr>username = JString ''admin'', role = ''admin'',
                                         issuedAt = 0, expiresAt = 3600\<rparr> else None"
  let ?d = "\<lparr>username = JString ''admin'', role = ''admin'', issuedAt = 0, expiresAt = 3600\<rparr>"
  let ?r = "\<lparr>authorization = Some ''Bearer abc'', admin = None\<rparr>"
  have n: "CHR '' '' \<notin> set ''abc''" by simp
  note g = gate_behaviour [of ?r ?v "''Bearer abc''" ?d "''abc''" MissingCredential createAccount init
             "?r\<lparr>admin := Some ?d\<rparr>"]
  from g n have i: "index (split CHR '' '' (''Bearer '' @ ''abc'')) 1 = Some ''abc''" by blast
  then have i': "index (split CHR '' '' ''Bearer abc'') 1 = Some ''abc''" by simp
  have v: "?v (index (split CHR '' '' ''Bearer abc'') 1) = Some ?d" by (simp only: i') simp
  have a: "authorization ?r = Some ''Bearer abc''" by simp
  from g a v have adm: "verifyToken ?v ?r = Inr (?r\<lparr>admin := Some ?d\<rparr>)" by blast
  with g have p: "protected ?v createAccount ?r init = createAccount init" by blast
  have m: "verifyToken ?v \<lparr>authorization = None, admin = None\<rparr> = Inl MissingCredential"
    using gate_behaviour [of "\<lparr>authorization = None, admin = None\<rparr>" ?v] by simp
  from a n v adm p m show ?thesis by simp
qed


lemma verify_issued:
  assumes "decode cd tok = Some (c, Some (mac cd secret c))" "\<not> expiresAt c < t"
  shows "TokenService_verify cd secret t (Some tok) = Some c"
  using assms by (simp add: TokenService_verify_def)

lemma verify_bad:
  assumes "decode cd x = None \<or>
           (\<exists>c sg. decode cd x = Some (c, sg) \<and> (sg \<noteq> Some (mac cd secret c) \<or> expiresAt c < t))"
  shows "TokenService_verify cd secret t (Some x) = None"
  using assms by (auto simp: TokenService_verify_def)

lemma protected_admit:
  "authorization req = Some h \<Longrightarrow> verify (index (split CHR '' '' h) 1) = Some d \<Longrightarrow>
     protected verify handler req s = handler s"
  by (simp add: protected_def verifyToken_def)

lemma protected_reject:
  "authorization req = Some h \<Longrightarrow> verify (index (split CHR '' '' h) 1) = None \<Longrightarrow>
     protected verify handler req s = (InvalidCredential, s)"
  by (simp add: protected_def verifyToken_def)

lemmas route_defs = post_accounts_def post_deposit_def post_withdraw_def get_balance_def

text \<open>
  C8. Login with the right username and password answers 200 with a token. If the
  token of that answer reads back as the claims it was issued for, then, sent as
  \<^verbatim>\<open>Bearer <token>\<close> before its expiry, it is admitted by all four protected routes:
  each answers as its handler does. A token that is malformed, unsigned, signed
  otherwise, or past its expiry is refused by all four with InvalidCredential, the
  state untouched.
\<close>

theorem issued_token_accepted:
  "(username_field = JString adminUsername \<and> password_field = JString adminPassword \<longrightarrow>
      status (login cd t0 username_field password_field) = 200) \<and>
   (login cd t0 username_field password_field = \<lparr>status = 200, body = TokenBody tok\<rparr> \<and>
    claims = \<lparr>username = username_field, role = ''admin'', issuedAt = t0, expiresAt = t0 + tokenExpiry\<rparr> \<and>
    decode cd (encode cd claims (mac cd jwtSecret claims)) = Some (claims, Some (mac cd jwtSecret claims)) \<and>
    CHR '' '' \<notin> set tok \<and> t < t0 + tokenExpiry \<and>
    authorization req = Some (''Bearer '' @ tok) \<longrightarrow>
      post_accounts (TokenService_verify cd jwtSecret t) req s = createAccount s \<and>
      post_deposit (TokenService_verify cd jwtSecret t) i amount u req s = deposit i amount u s \<and>
      post_withdraw (TokenService_verify cd jwtSecret t) i amount u req s = withdraw i amount u s \<and>
      get_balance (TokenService_verify cd jwtSecret t) i req s = getBalance i s) \<and>
   (authorization req = Some h \<and> index (split CHR '' '' h) 1 = Some x \<and>
    (decode cd x = None \<or>
     (\<exists>c sg. decode cd x = Some (c, sg) \<and>
        (sg = None \<or> sg \<noteq> Some (mac cd jwtSecret c) \<or> expiresAt c < t))) \<longrightarrow>
      post_accounts (TokenService_verify cd jwtSecret t) req s = (InvalidCredential, s) \<and>
      post_deposit (TokenService_verify cd jwtSecret t) i amount u req s = (InvalidCredential, s) \<and>
      post_withdraw (TokenService_verify cd jwtSecret t) i amount u req s = (InvalidCredential, s) \<and>
      get_balance (TokenService_verify cd jwtSecret t) i req s = (InvalidCredential, s))"
proof (intro conjI impI)
  assume "username_field = JString adminUsername \<and> password_field = JString adminPassword"
  then show "status (login cd t0 username_field password_field) = 200"
    by (simp add: login_def)
next
  let ?V = "TokenService_verify cd jwtSecret t"
  assume h: "login cd t0 username_field password_field = \<lparr>status = 200, body = TokenBody tok\<rparr> \<and>
    claims = \<lparr>username = username_field, role = ''admin'', issuedAt = t0, expiresAt = t0 + tokenExpiry\<rparr> \<and>
    decode cd (encode cd claims (mac cd jwtSecret claims)) = Some (claims, Some (mac cd jwtSecret claims)) \<and>
    CHR '' '' \<notin> set tok \<and> t < t0 + tokenExpiry \<and>
    authorization req = Some (''Bearer '' @ tok)"
  then have tok: "tok = encode cd claims (mac cd jwtSecret claims)"
    by (auto simp: login_def TokenService_issue_def Let_def split: if_splits)
  from h have ne: "\<not> expiresAt claims < t" by simp
  from h have "decode cd (encode cd claims (mac cd jwtSecret claims))
      = Some (claims, Some (mac cd jwtSecret claims))" by blast
  then have d: "decode cd tok = Some (claims, Some (mac cd jwtSecret claims))"
    by (simp only: tok)
  have vt: "?V (Some tok) = Some claims" by (rule verify_issued [OF d ne])
  from h have ns: "CHR '' '' \<notin> set tok" by simp
  have v: "?V (index (split CHR '' '' (''Bearer '' @ tok)) 1) = Some claims"
    by (simp only: bearer_token [OF ns] vt)
  from h have a: "authorization req = Some (''Bearer '' @ tok)" by simp
  show "post_accounts ?V req s = createAccount s"
    by (simp only: route_defs protected_admit [of req "''Bearer '' @ tok" ?V, OF a v])
  show "post_deposit ?V i amount u req s = deposit i amount u s"
    by (simp only: route_defs protected_admit [of req "''Bearer '' @ tok" ?V, OF a v])
  show "post_withdraw ?V i amount u req s = withdraw i amount u s"
    by (simp only: route_defs protected_admit [of req "''Bearer '' @ tok" ?V, OF a v])
  show "get_balance ?V i req s = getBalance i s"
    by (simp only: route_defs protected_admit [of req "''Bearer '' @ tok" ?V, OF a v])
next
  let ?V = "TokenService_verify cd jwtSecret t"
  assume h: "authorization req = Some h \<and> index (split CHR '' '' h) 1 = Some x \<and>
    (decode cd x = None \<or>
     (\<exists>c sg. decode cd x = Some (c, sg) \<and>
        (sg = None \<or> sg \<noteq> Some (mac cd jwtSecret c) \<or> expiresAt c < t)))"
  then have "decode cd x = None \<or>
     (\<exists>c sg. decode cd x = Some (c, sg) \<and> (sg \<noteq> Some (mac cd jwtSecret c) \<or> expiresAt c < t))"
    by auto
  then have "?V (Some x) = None" by (rule verify_bad)
  with h have v: "?V (index (split CHR '' '' h) 1) = None" by simp
  from h have a: "authorization req = Some h" by simp
  show "post_accounts ?V req s = (InvalidCredential, s)"
    by (simp only: route_defs protected_reject [of req h ?V, OF a v])
  show "post_deposit ?V i amount u req s = (InvalidCredential, s)"
    by (simp only: route_defs protected_reject [of req h ?V, OF a v])
  show "post_withdraw ?V i amount u req s = (InvalidCredential, s)"
    by (simp only: route_defs protected_reject [of req h ?V, OF a v])
  show "get_balance ?V i req s = (InvalidCredential, s)"
    by (simp only: route_defs protected_reject [of req h ?V, OF a v])
qed


text \<open>
  C8, the theorem at a concrete token format with the single token \<^verbatim>\<open>h.p.s\<close>: issued at
  time 0, it is admitted at time 10 and refused at time 3601, and \<^verbatim>\<open>bad\<close> is refused.
\<close>

theorem issued_token_accepted_witness:
  "login \<lparr>encode = (\<lambda>c sg. ''h.p.s''),
          decode = (\<lambda>x. if x = ''h.p.s''
                     then Some (\<lparr>username = JString ''admin'', role = ''admin'',
                                  issuedAt = 0, expiresAt = 3600\<rparr>, Some ''sig'')
                     else None),
          mac = (\<lambda>k c. ''sig'')\<rparr> 0 (JString ''admin'') (JString ''admin'')
     = \<lparr>status = 200, body = TokenBody ''h.p.s''\<rparr> \<and>
   CHR '' '' \<notin> set ''h.p.s'' \<and> (10::nat) < 0 + tokenExpiry \<and>
   post_deposit
     (TokenService_verify
        \<lparr>encode = (\<lambda>c sg. ''h.p.s''),
         decode = (\<lambda>x. if x = ''h.p.s''
                     then Some (\<lparr>username = JString ''admin'', role = ''admin'',
                                  issuedAt = 0, expiresAt = 3600\<rparr>, Some ''sig'')
                     else None),
         mac = (\<lambda>k c. ''sig'')\<rparr> jwtSecret 10)
     (Fin 1) (JNumber (Fin 100)) ''t1'' \<lparr>authorization = Some ''Bearer h.p.s'', admin = None\<rparr> init
     = deposit (Fin 1) (JNumber (Fin 100)) ''t1'' init \<and>
   post_deposit
     (TokenService_verify
        \<lparr>encode = (\<lambda>c sg. ''h.p.s''),
         decode = (\<lambda>x. if x = ''h.p.s''
                     then Some (\<lparr>username = JString ''admin'', role = ''admin'',
                                  issuedAt = 0, expiresAt = 3600\<rparr>, Some ''sig'')
                     else None),
         mac = (\<lambda>k c. ''sig'')\<rparr> jwtSecret 10)
     (Fin 1) (JNumber (Fin 100)) ''t1'' \<lparr>authorization = Some ''Bearer bad'', admin = None\<rparr> init
     = (InvalidCredential, init) \<and>
   post_deposit
     (TokenService_verify
        \<lparr>encode = (\<lambda>c sg. ''h.p.s''),
         decode = (\<lambda>x. if x = ''h.p.s''
                     then Some (\<lparr>username = JString ''admin'', role = ''admin'',
                                  issuedAt = 0, expiresAt = 3600\<rparr>, Some ''sig'')
                     else None),
         mac = (\<lambda>k c. ''sig'')\<rparr> jwtSecret 3601)
     (Fin 1) (JNumber (Fin 100)) ''t1'' \<lparr>authorization = Some ''Bearer h.p.s'', admin = None\<rparr> init
     = (InvalidCredential, init)"
proof -
  let ?c = "\<lparr>username = JString ''admin'', role = ''admin'', issuedAt = 0, expiresAt = 3600\<rparr>"
  let ?cd = "\<lparr>encode = (\<lambda>c sg. ''h.p.s''),
         decode = (\<lambda>x. if x = ''h.p.s'' then Some (?c, Some ''sig'') else None),
         mac = (\<lambda>k c. ''sig'')\<rparr>"
  let ?good = "\<lparr>authorization = Some ''Bearer h.p.s'', admin = None\<rparr>"
  let ?bad = "\<lparr>authorization = Some ''Bearer bad'', admin = None\<rparr>"
  have l: "login ?cd 0 (JString ''admin'') (JString ''admin'')
      = \<lparr>status = 200, body = TokenBody ''h.p.s''\<rparr>"
    by (simp add: login_def adminUsername_def adminPassword_def TokenService_issue_def)
  have n: "CHR '' '' \<notin> set ''h.p.s''" by simp
  have e: "(10::nat) < 0 + tokenExpiry" by (simp add: tokenExpiry_def)
  have c: "?c = \<lparr>username = JString ''admin'', role = ''admin'', issuedAt = 0,
                  expiresAt = 0 + tokenExpiry\<rparr>"
    by (simp add: tokenExpiry_def)
  have r: "decode ?cd (encode ?cd ?c (mac ?cd jwtSecret ?c)) = Some (?c, Some (mac ?cd jwtSecret ?c))"
    by simp
  have a: "authorization ?good = Some (''Bearer '' @ ''h.p.s'')" by simp
  have 1: "post_deposit (TokenService_verify ?cd jwtSecret 10) (Fin 1) (JNumber (Fin 100)) ''t1'' ?good init
      = deposit (Fin 1) (JNumber (Fin 100)) ''t1'' init"
    using issued_token_accepted [of "JString ''admin''" "JString ''admin''" ?cd 0 "''h.p.s''" ?c 10 ?good
            init "Fin 1" "JNumber (Fin 100)" "''t1''"] l n e c r a
    by blast
  have b: "authorization ?bad = Some ''Bearer bad''" by simp
  have i: "index (split CHR '' '' ''Bearer bad'') 1 = Some ''bad''" by (simp add: index_def)
  have d: "decode ?cd ''bad'' = None" by simp
  have 2: "post_deposit (TokenService_verify ?cd jwtSecret 10) (Fin 1) (JNumber (Fin 100)) ''t1'' ?bad init
      = (InvalidCredential, init)"
    using issued_token_accepted [of "JString ''admin''" "JString ''admin''" ?cd 0 "''h.p.s''" ?c 10 ?bad
            init "Fin 1" "JNumber (Fin 100)" "''t1''" "''Bearer bad''" "''bad''"] b i d
    by blast
  have a': "authorization ?good = Some ''Bearer h.p.s''" by simp
  have i': "index (split CHR '' '' ''Bearer h.p.s'') 1 = Some ''h.p.s''" by (simp add: index_def)
  have x: "\<exists>c sg. decode ?cd ''h.p.s'' = Some (c, sg) \<and>
      (sg = None \<or> sg \<noteq> Some (mac ?cd jwtSecret c) \<or> expiresAt c < 3601)"
    by simp
  have 3: "post_deposit (TokenService_verify ?cd jwtSecret 3601) (Fin 1) (JNumber (Fin 100)) ''t1'' ?good init
      = (InvalidCredential, init)"
    using issued_token_accepted [of "JString ''admin''" "JString ''admin''" ?cd 0 "''h.p.s''" ?c 3601 ?good
            init "Fin 1" "JNumber (Fin 100)" "''t1''" "''Bearer h.p.s''" "''h.p.s''"] a' i' x
    by blast
  from l n e 1 2 3 show ?thesis by (simp only: simp_thms)
qed

end
